theory Spec2Isabelle
  imports Complex_Main
begin

section \<open>JavaScript numbers\<close>

text \<open>
  Every number of \<^verbatim>\<open>backend-server.js\<close> is a JavaScript Number. The model keeps the
  four kinds of value a Number can be: a finite value, the two infinities and NaN.
  Finite arithmetic is exact (the rounding of IEEE-754 doubles and the sign of zero are
  not modelled); everything else follows ECMAScript: an operation on NaN is NaN, a
  comparison with NaN is false, \<^verbatim>\<open>x / 0\<close> is an infinity of the sign of \<^verbatim>\<open>x\<close>
  and \<^verbatim>\<open>0 / 0\<close> is NaN.
\<close>

datatype jsnum = Fin real | PInf | NInf | NaN

fun js_neg :: "jsnum \<Rightarrow> jsnum" where
  "js_neg (Fin a) = Fin (- a)"
| "js_neg PInf = NInf"
| "js_neg NInf = PInf"
| "js_neg NaN = NaN"

fun js_add :: "jsnum \<Rightarrow> jsnum \<Rightarrow> jsnum" where
  "js_add (Fin a) (Fin b) = Fin (a + b)"
| "js_add NaN _ = NaN"
| "js_add _ NaN = NaN"
| "js_add PInf NInf = NaN"
| "js_add NInf PInf = NaN"
| "js_add PInf _ = PInf"
| "js_add _ PInf = PInf"
| "js_add NInf _ = NInf"
| "js_add _ NInf = NInf"

definition js_sub :: "jsnum \<Rightarrow> jsnum \<Rightarrow> jsnum" where
  "js_sub a b = js_add a (js_neg b)"

fun js_mul :: "jsnum \<Rightarrow> jsnum \<Rightarrow> jsnum" where
  "js_mul (Fin a) (Fin b) = Fin (a * b)"
| "js_mul NaN _ = NaN"
| "js_mul _ NaN = NaN"
| "js_mul PInf (Fin b) = (if b = 0 then NaN else if 0 < b then PInf else NInf)"
| "js_mul NInf (Fin b) = (if b = 0 then NaN else if 0 < b then NInf else PInf)"
| "js_mul (Fin a) PInf = (if a = 0 then NaN else if 0 < a then PInf else NInf)"
| "js_mul (Fin a) NInf = (if a = 0 then NaN else if 0 < a then NInf else PInf)"
| "js_mul PInf PInf = PInf"
| "js_mul PInf NInf = NInf"
| "js_mul NInf PInf = NInf"
| "js_mul NInf NInf = PInf"

fun js_div :: "jsnum \<Rightarrow> jsnum \<Rightarrow> jsnum" where
  "js_div (Fin a) (Fin b) =
     (if b \<noteq> 0 then Fin (a / b)
      else if 0 < a then PInf else if a < 0 then NInf else NaN)"
| "js_div NaN _ = NaN"
| "js_div _ NaN = NaN"
| "js_div (Fin a) PInf = Fin 0"
| "js_div (Fin a) NInf = Fin 0"
| "js_div PInf (Fin b) = (if 0 \<le> b then PInf else NInf)"
| "js_div NInf (Fin b) = (if 0 \<le> b then NInf else PInf)"
| "js_div PInf PInf = NaN"
| "js_div PInf NInf = NaN"
| "js_div NInf PInf = NaN"
| "js_div NInf NInf = NaN"

text \<open>\<^verbatim>\<open>Math.abs\<close>, \<^verbatim>\<open>Math.floor\<close> and \<^verbatim>\<open>Math.max\<close> (NaN as soon as one argument
  is NaN, \<^verbatim>\<open>-Infinity\<close> on no argument).\<close>

fun Math_abs :: "jsnum \<Rightarrow> jsnum" where
  "Math_abs (Fin a) = Fin \<bar>a\<bar>"
| "Math_abs PInf = PInf"
| "Math_abs NInf = PInf"
| "Math_abs NaN = NaN"

fun Math_floor :: "jsnum \<Rightarrow> jsnum" where
  "Math_floor (Fin a) = Fin (of_int \<lfloor>a\<rfloor>)"
| "Math_floor x = x"

fun js_max2 :: "jsnum \<Rightarrow> jsnum \<Rightarrow> jsnum" where
  "js_max2 (Fin a) (Fin b) = Fin (max a b)"
| "js_max2 NaN _ = NaN"
| "js_max2 _ NaN = NaN"
| "js_max2 PInf _ = PInf"
| "js_max2 _ PInf = PInf"
| "js_max2 NInf b = b"
| "js_max2 a NInf = a"

definition Math_max :: "jsnum list \<Rightarrow> jsnum" where
  "Math_max xs = foldl js_max2 NInf xs"

text \<open>The relational operators \<^verbatim>\<open><\<close>, \<^verbatim>\<open>>\<close>, \<^verbatim>\<open><=\<close>, \<^verbatim>\<open>>=\<close>, and the truth value
  of a number in a condition (\<^verbatim>\<open>!x\<close> holds of \<^verbatim>\<open>0\<close> and of NaN).\<close>

fun js_lt :: "jsnum \<Rightarrow> jsnum \<Rightarrow> bool" where
  "js_lt (Fin a) (Fin b) = (a < b)"
| "js_lt NaN _ = False"
| "js_lt _ NaN = False"
| "js_lt _ NInf = False"
| "js_lt PInf _ = False"
| "js_lt NInf _ = True"
| "js_lt _ PInf = True"

definition js_gt :: "jsnum \<Rightarrow> jsnum \<Rightarrow> bool" where
  "js_gt a b = js_lt b a"

definition js_le :: "jsnum \<Rightarrow> jsnum \<Rightarrow> bool" where
  "js_le a b = (a \<noteq> NaN \<and> b \<noteq> NaN \<and> (a = b \<or> js_lt a b))"

definition js_ge :: "jsnum \<Rightarrow> jsnum \<Rightarrow> bool" where
  "js_ge a b = js_le b a"

definition js_truthy :: "jsnum \<Rightarrow> bool" where
  "js_truthy x = (x \<noteq> Fin 0 \<and> x \<noteq> NaN)"

text \<open>\<^verbatim>\<open>xs.slice(-n)\<close> for a count \<open>n\<close>: the last \<open>n\<close> elements, all of them when the
  array is shorter, and the whole array for \<open>n = 0\<close> (\<^verbatim>\<open>slice(-0)\<close> is \<^verbatim>\<open>slice(0)\<close>).\<close>

definition slice_last :: "nat \<Rightarrow> 'a list \<Rightarrow> 'a list" where
  "slice_last n xs = (if n = 0 then xs else drop (length xs - n) xs)"

section \<open>Configuration\<close>

text \<open>The entries of \<^verbatim>\<open>CONFIG\<close> fixed by a literal are constants; \<^verbatim>\<open>POSITION_SIZE\<close>
  and \<^verbatim>\<open>LEVERAGE\<close> are read from the environment and are parameters of the model.\<close>

definition MA_PERIOD :: nat where "MA_PERIOD = 100"
definition ATR_PERIOD :: nat where "ATR_PERIOD = 10"
definition ATR_MULTIPLIER :: jsnum where "ATR_MULTIPLIER = Fin 3"
definition RISK_REWARD_RATIO :: jsnum where "RISK_REWARD_RATIO = Fin 1"

record config =
  POSITION_SIZE :: jsnum
  LEVERAGE :: jsnum

section \<open>Indicators\<close>

record candle =
  timestamp :: nat
  "open" :: jsnum
  high :: jsnum
  low :: jsnum
  close :: jsnum
  volume :: jsnum

definition calculateSMA :: "candle list \<Rightarrow> nat \<Rightarrow> jsnum option" where
  "calculateSMA data period =
     (if length data < period then None
      else let slice = slice_last period data
           in Some (js_div (foldl (\<lambda>acc c. js_add acc (close c)) (Fin 0) slice)
                           (Fin (real period))))"

text \<open>The true range of bar \<open>c\<close> after bar \<open>p\<close>, and the loop of \<^verbatim>\<open>calculateATR\<close>
  over \<^verbatim>\<open>i = 1 .. data.length - 1\<close>, which pushes one true range per pair of
  neighbouring bars.\<close>

definition trueRange :: "candle \<Rightarrow> candle \<Rightarrow> jsnum" where
  "trueRange p c =
     Math_max [js_sub (high c) (low c),
               Math_abs (js_sub (high c) (close p)),
               Math_abs (js_sub (low c) (close p))]"

fun trueRanges :: "candle list \<Rightarrow> jsnum list" where
  "trueRanges (p # c # rest) = trueRange p c # trueRanges (c # rest)"
| "trueRanges _ = []"

definition calculateATR :: "candle list \<Rightarrow> nat \<Rightarrow> jsnum option" where
  "calculateATR data period =
     (if length data < period + 1 then None
      else let recentTR = slice_last period (trueRanges data)
           in Some (js_div (foldl js_add (Fin 0) recentTR) (Fin (real period))))"

record atrStop =
  "value" :: jsnum
  atr :: jsnum

definition calculateATRTrailingStop :: "candle list \<Rightarrow> nat \<Rightarrow> jsnum \<Rightarrow> atrStop option" where
  "calculateATRTrailingStop data atrPeriod atrMultiplier =
     (if length data < atrPeriod + 1 then None
      else case calculateATR data atrPeriod of
             None \<Rightarrow> None \<comment> \<open>excluded by the guard, which is the one of \<^verbatim>\<open>calculateATR\<close>\<close>
           | Some a \<Rightarrow>
               let currentPrice = close (data ! (length data - 1))
               in Some \<lparr>value = js_sub currentPrice (js_mul a atrMultiplier), atr = a\<rparr>)"

text \<open>The strings \<^verbatim>\<open>'BUY'\<close> and \<^verbatim>\<open>'SELL'\<close>: the value of the volume and momentum
  signal, and the side of an order.\<close>

datatype side = BUY | SELL

definition detectSmartMoneySignal :: "candle list \<Rightarrow> side option" where
  "detectSmartMoneySignal data =
     (if length data < 20 then None
      else let current = data ! (length data - 1);
               previous = data ! (length data - 2);
               avgVolume = js_div (foldl (\<lambda>sum c. js_add sum (volume c)) (Fin 0)
                                     (slice_last 20 data)) (Fin 20);
               volumeSpike = js_gt (volume current) (js_mul avgVolume (Fin 1.5));
               momentum = js_div (Math_abs (js_sub (close current) (close previous)))
                                 (close previous);
               strongMomentum = js_gt momentum (Fin 0.002)
           in if volumeSpike \<and> js_gt (close current) (close previous) \<and> strongMomentum
              then Some BUY
              else if volumeSpike \<and> js_lt (close current) (close previous) \<and> strongMomentum
              then Some SELL
              else None)"

text \<open>The object \<^verbatim>\<open>checkEntrySignal\<close> returns; its field \<^verbatim>\<open>atrStop\<close>, which holds
  \<^verbatim>\<open>atrStop.value\<close>, is \<open>atrStopValue\<close> here.\<close>

datatype direction = LONG | SHORT

record signal =
  type :: direction
  entryPrice :: jsnum
  stopLoss :: jsnum
  takeProfit :: jsnum
  ma100 :: jsnum
  atrStopValue :: jsnum

definition checkEntrySignal :: "candle list \<Rightarrow> signal option" where
  "checkEntrySignal data =
     (if length data < 100 then None
      else case (calculateSMA data MA_PERIOD,
                 calculateATRTrailingStop data ATR_PERIOD ATR_MULTIPLIER) of
             (Some m, Some stop) \<Rightarrow>
               if \<not> js_truthy m then None
               else let smartMoneySignal = detectSmartMoneySignal data;
                        currentPrice = close (data ! (length data - 1))
                    in if js_gt (value stop) m \<and> smartMoneySignal = Some BUY
                       then let risk = js_sub currentPrice m
                            in Some \<lparr>type = LONG, entryPrice = currentPrice, stopLoss = m,
                                 takeProfit = js_add currentPrice (js_mul risk RISK_REWARD_RATIO),
                                 ma100 = m, atrStopValue = value stop\<rparr>
                       else if js_lt (value stop) m \<and> smartMoneySignal = Some SELL
                       then let risk = js_sub m currentPrice
                            in Some \<lparr>type = SHORT, entryPrice = currentPrice, stopLoss = m,
                                 takeProfit = js_sub currentPrice (js_mul risk RISK_REWARD_RATIO),
                                 ma100 = m, atrStopValue = value stop\<rparr>
                       else None
           | _ \<Rightarrow> None)"

datatype exitReason = STOP_LOSS | TAKE_PROFIT

datatype exitCheck = Exit exitReason jsnum | NoExit

definition checkExit :: "'a signal_scheme \<Rightarrow> jsnum \<Rightarrow> exitCheck" where
  "checkExit position currentPrice =
     (if type position = LONG then
        if js_le currentPrice (stopLoss position) then Exit STOP_LOSS currentPrice
        else if js_ge currentPrice (takeProfit position) then Exit TAKE_PROFIT currentPrice
        else NoExit
      else
        if js_ge currentPrice (stopLoss position) then Exit STOP_LOSS currentPrice
        else if js_le currentPrice (takeProfit position) then Exit TAKE_PROFIT currentPrice
        else NoExit)"

section \<open>The trading engine\<close>

text \<open>
  \<^verbatim>\<open>tradingState\<close> is the one mutable object of the program; every method of
  \<^verbatim>\<open>TradingEngine\<close> takes it and returns it updated. A position is the signal it was
  opened on, extended by the quantity, the time and the order identifier
  (\<^verbatim>\<open>{...signal, quantity, timestamp, orderId}\<close>). Field names are global here, so
  the \<^verbatim>\<open>timestamp\<close> of a position is \<open>openedAt\<close>, and the fields \<^verbatim>\<open>type\<close>,
  \<^verbatim>\<open>entryPrice\<close>, \<^verbatim>\<open>quantity\<close> and \<^verbatim>\<open>timestamp\<close> of a trade are \<open>trade_type\<close>,
  \<open>trade_entryPrice\<close>, \<open>trade_quantity\<close> and \<open>closedAt\<close>.
\<close>

record position = signal +
  quantity :: jsnum
  openedAt :: string
  orderId :: nat

record trade =
  trade_type :: direction
  trade_entryPrice :: jsnum
  exitPrice :: jsnum
  trade_quantity :: jsnum
  profit :: jsnum
  reason :: exitReason
  closedAt :: string

record tradingState =
  balance :: jsnum
  inPosition :: bool
  currentPosition :: "position option"
  trades :: "trade list"
  priceData :: "candle list"
  lastUpdate :: "string option"

definition initialState :: tradingState where
  "initialState = \<lparr>balance = Fin 0, inPosition = False, currentPosition = None,
                    trades = [], priceData = [], lastUpdate = None\<rparr>"

text \<open>
  The venue gateway \<^verbatim>\<open>AsterDexAPI\<close> is outside the model: what it answers during one
  call of an engine method is an input. Each of its methods catches its own errors, so a
  failure is the value the \<^verbatim>\<open>catch\<close> returns: \<^verbatim>\<open>[]\<close> for the candles, \<^verbatim>\<open>0\<close> for
  the balance and \<^verbatim>\<open>null\<close> (\<open>None\<close>) for an order. The requests an engine method sends
  are returned beside the state, in the order they are sent. An order that was accepted
  is known by its \<^verbatim>\<open>orderId\<close>. The two readings of the clock are inputs as well:
  \<^verbatim>\<open>new Date()\<close> in \<^verbatim>\<open>updatePriceData\<close> and \<^verbatim>\<open>new Date().toISOString()\<close> where a
  position or a trade is recorded.
\<close>

record venue =
  klines :: "candle list"
  availableBalance :: jsnum
  marketOrder :: "nat option"
  stopOrder :: "nat option"
  closeOrder :: "nat option"
  now :: string
  nowISO :: string

datatype request =
    GetKlines
  | GetBalance
  | PlaceMarketOrder side jsnum
  | PlaceStopOrder side jsnum jsnum
  | ClosePosition

text \<open>\<^verbatim>\<open>x.toFixed(4)\<close>, as the number the string denotes: the nearest multiple of
  \<open>1/10000\<close>, the one further from zero on a tie.\<close>

fun toFixed4 :: "jsnum \<Rightarrow> jsnum" where
  "toFixed4 (Fin a) =
     (if 0 \<le> a then Fin (of_int \<lfloor>a * 10000 + 1 / 2\<rfloor> / 10000)
      else Fin (- (of_int \<lfloor>- a * 10000 + 1 / 2\<rfloor> / 10000)))"
| "toFixed4 x = x"

definition openPosition ::
  "config \<Rightarrow> venue \<Rightarrow> tradingState \<Rightarrow> signal \<Rightarrow> tradingState \<times> request list" where
  "openPosition cfg v s sg =
     (let bal = availableBalance v;
          positionValue = js_mul (js_div (js_mul bal (POSITION_SIZE cfg)) (Fin 100)) (LEVERAGE cfg);
          qty = js_div (Math_floor (js_mul (js_div positionValue (entryPrice sg)) (Fin 10)))
                       (Fin 10)
      in if js_le qty (Fin 0) then (s, [GetBalance])
         else let sd = (if type sg = LONG then BUY else SELL)
              in case marketOrder v of
                   None \<Rightarrow> (s, [GetBalance, PlaceMarketOrder sd qty])
                 | Some oid \<Rightarrow>
                     let stopSide = (if type sg = LONG then SELL else BUY)
                     in (s\<lparr>inPosition := True,
                           currentPosition := Some
                             \<lparr>type = type sg, entryPrice = entryPrice sg,
                              stopLoss = stopLoss sg, takeProfit = takeProfit sg,
                              ma100 = ma100 sg, atrStopValue = atrStopValue sg,
                              quantity = qty, openedAt = nowISO v, orderId = oid\<rparr>\<rparr>,
                         [GetBalance, PlaceMarketOrder sd qty,
                          PlaceStopOrder stopSide qty (toFixed4 (stopLoss sg))]))"

text \<open>In \<^verbatim>\<open>closePosition\<close>, reading \<^verbatim>\<open>position.type\<close> of a \<^verbatim>\<open>null\<close> position throws
  before anything is written, and the \<^verbatim>\<open>catch\<close> of the method swallows the error.\<close>

definition closePosition ::
  "config \<Rightarrow> venue \<Rightarrow> tradingState \<Rightarrow> exitReason \<Rightarrow> jsnum \<Rightarrow> tradingState \<times> request list" where
  "closePosition cfg v s rsn exitP =
     (case closeOrder v of
        None \<Rightarrow> (s, [ClosePosition])
      | Some oid \<Rightarrow>
          (case currentPosition s of
             None \<Rightarrow> (s, [ClosePosition])
           | Some p \<Rightarrow>
               let raw = (if type p = LONG
                          then js_mul (js_sub exitP (entryPrice p)) (quantity p)
                          else js_mul (js_sub (entryPrice p) exitP) (quantity p));
                   pr = js_mul raw (LEVERAGE cfg);
                   t = \<lparr>trade_type = type p, trade_entryPrice = entryPrice p,
                        exitPrice = exitP, trade_quantity = quantity p, profit = pr,
                        reason = rsn, closedAt = nowISO v\<rparr>
               in (s\<lparr>trades := trades s @ [t],
                     balance := js_add (balance s) pr,
                     inPosition := False,
                     currentPosition := None\<rparr>, [ClosePosition])))"

definition updatePriceData :: "venue \<Rightarrow> tradingState \<Rightarrow> tradingState" where
  "updatePriceData v s =
     (if 0 < length (klines v)
      then s\<lparr>priceData := klines v, lastUpdate := Some (now v)\<rparr>
      else s)"

text \<open>One evaluation cycle. \<^verbatim>\<open>priceData[priceData.length - 1]?.close\<close> is
  \<^verbatim>\<open>undefined\<close> on an empty array, and the cycle ends there, as it does when the last
  close is \<^verbatim>\<open>0\<close> or NaN. The condition \<^verbatim>\<open>inPosition && currentPosition\<close> holds when
  the flag is set and the position is not \<^verbatim>\<open>null\<close>.\<close>

definition checkForSignals ::
  "config \<Rightarrow> venue \<Rightarrow> tradingState \<Rightarrow> tradingState \<times> request list" where
  "checkForSignals cfg v s0 =
     (let s = updatePriceData v s0
      in if priceData s = [] then (s, [GetKlines])
         else let currentPrice = close (priceData s ! (length (priceData s) - 1))
              in if \<not> js_truthy currentPrice then (s, [GetKlines])
                 else case (if inPosition s then currentPosition s else None) of
                        Some p \<Rightarrow>
                          (case checkExit p currentPrice of
                             Exit rsn price \<Rightarrow>
                               (let (s', rs) = closePosition cfg v s rsn price
                                in (s', GetKlines # rs))
                           | NoExit \<Rightarrow> (s, [GetKlines]))
                      | None \<Rightarrow>
                          (case checkEntrySignal (priceData s) of
                             Some sg \<Rightarrow>
                               (let (s', rs) = openPosition cfg v s sg
                                in (s', GetKlines # rs))
                           | None \<Rightarrow> (s, [GetKlines])))"

text \<open>\<^verbatim>\<open>initialize\<close> reads the balance and the first candles. The calls that can be
  made on the engine, and the state after a sequence of them from the initial state.\<close>

definition initialize :: "venue \<Rightarrow> tradingState \<Rightarrow> tradingState" where
  "initialize v s = updatePriceData v (s\<lparr>balance := availableBalance v\<rparr>)"

datatype call =
    Initialize venue
  | CheckForSignals venue
  | OpenPosition venue signal
  | ClosePositionCall venue exitReason jsnum

fun step :: "config \<Rightarrow> tradingState \<Rightarrow> call \<Rightarrow> tradingState" where
  "step cfg s (Initialize v) = initialize v s"
| "step cfg s (CheckForSignals v) = fst (checkForSignals cfg v s)"
| "step cfg s (OpenPosition v sg) = fst (openPosition cfg v s sg)"
| "step cfg s (ClosePositionCall v rsn p) = fst (closePosition cfg v s rsn p)"

definition run :: "config \<Rightarrow> call list \<Rightarrow> tradingState" where
  "run cfg calls = foldl (step cfg) initialState calls"

section \<open>Candle series and venues used as concrete inputs\<close>

definition bar :: "real \<Rightarrow> real \<Rightarrow> real \<Rightarrow> real \<Rightarrow> candle" where
  "bar h l c vol = \<lparr>timestamp = 0, open = Fin l, high = Fin h, low = Fin l,
                     close = Fin c, volume = Fin vol\<rparr>"

text \<open>Ninety-nine flat bars at 100, then a bar that closes at 104 (or at 96) on ten
  times the volume.\<close>

definition long_series :: "candle list" where
  "long_series = replicate 99 (bar 100 100 100 1) @ [bar 104 100 104 10]"

definition short_series :: "candle list" where
  "short_series = replicate 99 (bar 100 100 100 1) @ [bar 100 96 96 10]"

text \<open>A series whose last hundred closes add up to zero: 89 bars at \<open>-1\<close>, ten bars at 8
  and a last bar that rises to 9 on ten times the volume.\<close>

definition zero_ma_series :: "candle list" where
  "zero_ma_series =
     replicate 89 (bar (-1) (-1) (-1) 1) @ replicate 10 (bar 8 8 8 1) @ [bar 9 8 9 10]"

text \<open>A volatile series that trades between 50 and 100 and falls from 100 to 99 on the
  last bar: its moving average is below the last close.\<close>

definition wide_series :: "candle list" where
  "wide_series = replicate 98 (bar 100 50 50 1) @ [bar 100 50 100 1, bar 100 99 99 10]"

definition cfg0 :: config where
  "cfg0 = \<lparr>POSITION_SIZE = Fin 100, LEVERAGE = Fin 10\<rparr>"

definition venue0 :: venue where
  "venue0 = \<lparr>klines = long_series, availableBalance = Fin 1000, marketOrder = Some 7,
              stopOrder = None, closeOrder = None, now = ''t1'', nowISO = ''T1''\<rparr>"

text \<open>A position with the given direction, entry price, stop-loss, take-profit and
  quantity.\<close>

definition pos :: "direction \<Rightarrow> real \<Rightarrow> real \<Rightarrow> real \<Rightarrow> real \<Rightarrow> position" where
  "pos d e sl tp q = \<lparr>type = d, entryPrice = Fin e, stopLoss = Fin sl, takeProfit = Fin tp,
       ma100 = Fin sl, atrStopValue = Fin e, quantity = Fin q, openedAt = ''t0'', orderId = 7\<rparr>"

text \<open>A venue on which the candles end at 1.99 and the close request succeeds, and a
  state that holds a LONG position entered at 3 with its stop-loss at 2.\<close>

definition venue1 :: venue where
  "venue1 = \<lparr>klines = [bar 2 1.99 1.99 1], availableBalance = Fin 1000, marketOrder = None,
              stopOrder = None, closeOrder = Some 8, now = ''t2'', nowISO = ''T2''\<rparr>"

definition state1 :: tradingState where
  "state1 = \<lparr>balance = Fin 1000, inPosition = True,
              currentPosition = Some (pos LONG 3 2 4 10),
              trades = [], priceData = [], lastUpdate = None\<rparr>"

text \<open>A venue that rejects the market order; one whose balance is 100 and one whose balance
  request failed; and a LONG signal at the entry price 1000000.\<close>

definition venue2 :: venue where
  "venue2 = \<lparr>klines = long_series, availableBalance = Fin 1000, marketOrder = None,
              stopOrder = None, closeOrder = None, now = ''t3'', nowISO = ''T3''\<rparr>"




section \<open>The invariant of the position fields\<close>

definition consistent :: "tradingState \<Rightarrow> bool" where
  "consistent s = (inPosition s = (currentPosition s \<noteq> None))"

section \<open>Properties of the number operations\<close>

lemma js_lt_absorb [simp]:
  "js_lt x NaN = False" "js_lt PInf x = False" "js_lt x NInf = False"
  by (cases x; simp)+

lemma js_lt_asym: "js_lt a b \<Longrightarrow> \<not> js_lt b a"
  by (cases a; cases b) auto











lemma last_nth: "xs \<noteq> [] \<Longrightarrow> xs ! (length xs - Suc 0) = last xs"
  by (simp add: last_conv_nth)


lemma length_slice_last: "n \<le> length xs \<Longrightarrow> n \<le> length (slice_last n xs)"
  by (simp add: slice_last_def)

section \<open>Properties of the indicators\<close>

lemma length_trueRanges: "length (trueRanges data) = length data - 1"
  by (induction data rule: trueRanges.induct) auto






lemma calculateATRTrailingStop_Some:
  "period + 1 \<le> length data \<Longrightarrow>
   \<exists>a. calculateATR data period = Some a \<and>
       calculateATRTrailingStop data period k =
         Some \<lparr>value = js_sub (close (last data)) (js_mul a k), atr = a\<rparr>"
proof -
  assume len: "period + 1 \<le> length data"
  then have "data \<noteq> []" by auto
  then have "data ! (length data - Suc 0) = last data" by (rule last_nth)
  with len show ?thesis
    by (simp add: calculateATRTrailingStop_def calculateATR_def Let_def)
qed

text \<open>The branches of \<^verbatim>\<open>checkEntrySignal\<close> once both indicators have a value.\<close>

lemma checkEntrySignal_cases:
  assumes "100 \<le> length data"
    and "calculateSMA data MA_PERIOD = Some m"
    and "calculateATRTrailingStop data ATR_PERIOD ATR_MULTIPLIER = Some st"
  shows "checkEntrySignal data =
     (if m = Fin 0 \<or> m = NaN then None
      else if js_gt (value st) m \<and> detectSmartMoneySignal data = Some BUY
           then Some \<lparr>type = LONG, entryPrice = close (last data), stopLoss = m,
                  takeProfit = js_add (close (last data))
                     (js_mul (js_sub (close (last data)) m) RISK_REWARD_RATIO),
                  ma100 = m, atrStopValue = value st\<rparr>
      else if js_lt (value st) m \<and> detectSmartMoneySignal data = Some SELL
           then Some \<lparr>type = SHORT, entryPrice = close (last data), stopLoss = m,
                  takeProfit = js_sub (close (last data))
                     (js_mul (js_sub m (close (last data))) RISK_REWARD_RATIO),
                  ma100 = m, atrStopValue = value st\<rparr>
      else None)"
proof -
  from assms(1) have "data \<noteq> []" by auto
  then have l: "data ! (length data - Suc 0) = last data"
    by (rule last_nth)
  show ?thesis
    using assms
    by (simp add: checkEntrySignal_def Let_def js_truthy_def l)
qed

section \<open>The claims about the indicators\<close>

text \<open>
  Claim C8. \<^verbatim>\<open>calculateSMA\<close> returns \<^verbatim>\<open>null\<close> whenever the series has fewer bars than
  the period, and \<^verbatim>\<open>calculateATR\<close> whenever it has fewer than the period plus one. When
  either returns a number, the window it averaged has at least \<open>period\<close> elements.
\<close>

theorem insufficient_data_no_result:
  "(length data < period \<longrightarrow> calculateSMA data period = None) \<and>
   (length data < period + 1 \<longrightarrow> calculateATR data period = None) \<and>
   (\<forall>v. calculateSMA data period = Some v \<longrightarrow> period \<le> length (slice_last period data)) \<and>
   (\<forall>v. calculateATR data period = Some v \<longrightarrow>
        period \<le> length (slice_last period (trueRanges data)))"
  by (auto simp: calculateSMA_def calculateATR_def length_trueRanges
      intro!: length_slice_last split: if_splits)

theorem insufficient_data_no_result_witness:
  "calculateSMA (replicate 99 (bar 100 100 100 1)) 100 = None \<and>
   calculateATR (replicate 99 (bar 100 100 100 1)) 100 = None \<and>
   calculateSMA long_series 100 = Some (Fin (2501 / 25)) \<and>
   100 \<le> length (slice_last 100 long_series) \<and>
   calculateATR long_series 10 = Some (Fin (2 / 5)) \<and>
   10 \<le> length (slice_last 10 (trueRanges long_series))"
proof -
  have a: "calculateSMA long_series 100 = Some (Fin (2501 / 25))" by code_simp
  have b: "calculateATR long_series 10 = Some (Fin (2 / 5))" by code_simp
  show ?thesis
    using insufficient_data_no_result [of "replicate 99 (bar 100 100 100 1)" 100] insufficient_data_no_result [of long_series 100]
      insufficient_data_no_result [of long_series 10] a b
    by simp
qed

text \<open>
  Claim C9. On fewer than 100 bars \<^verbatim>\<open>checkEntrySignal\<close> returns \<^verbatim>\<open>null\<close>, whatever the
  candles hold.
\<close>

theorem checkEntrySignal_needs_100_bars: "length data < 100 \<Longrightarrow> checkEntrySignal data = None"
  by (simp add: checkEntrySignal_def)

theorem checkEntrySignal_needs_100_bars_witness:
  "length (replicate 99 (bar 100 100 100 1)) < 100 \<and>
   checkEntrySignal (replicate 99 (bar 100 100 100 1)) = None"
  using checkEntrySignal_needs_100_bars [of "replicate 99 (bar 100 100 100 1)"] by simp

text \<open>
  Claim C7. On at least 20 bars \<^verbatim>\<open>detectSmartMoneySignal\<close> returns \<^verbatim>\<open>'BUY'\<close> exactly when
  the volume of the last bar exceeds 1.5 times the mean volume of the last 20 bars, the
  move \<open>|close - previous close| / previous close\<close> exceeds 0.002 and the close is above the
  previous close; \<^verbatim>\<open>'SELL'\<close> exactly when the first two hold and the close is below the
  previous close; \<^verbatim>\<open>null\<close> otherwise, and always on fewer than 20 bars. The division
  and the comparisons are those of JavaScript: a previous close of \<open>0\<close> makes the move
  \<open>Infinity\<close> or NaN.
\<close>

theorem detectSmartMoneySignal_spec:
  "(20 \<le> length data \<longrightarrow>
     (let cur = last data; prev = data ! (length data - 2);
          mean = js_div (foldl js_add (Fin 0) (map volume (drop (length data - 20) data))) (Fin 20);
          spike = js_gt (volume cur) (js_mul mean (Fin 1.5));
          move = js_gt (js_div (Math_abs (js_sub (close cur) (close prev))) (close prev))
                       (Fin 0.002)
      in (detectSmartMoneySignal data = Some BUY) =
           (spike \<and> move \<and> js_gt (close cur) (close prev)) \<and>
         (detectSmartMoneySignal data = Some SELL) =
           (spike \<and> move \<and> js_lt (close cur) (close prev)) \<and>
         (detectSmartMoneySignal data = None) =
           (\<not> (spike \<and> move \<and> js_gt (close cur) (close prev)) \<and>
            \<not> (spike \<and> move \<and> js_lt (close cur) (close prev))))) \<and>
   (length data < 20 \<longrightarrow> detectSmartMoneySignal data = None)"
proof (intro conjI impI)
  assume len: "20 \<le> length data"
  then have "data \<noteq> []" by auto
  then have l: "data ! (length data - Suc 0) = last data"
    by (rule last_nth)
  have x: "js_gt a b \<Longrightarrow> \<not> js_lt a b" for a b
    using js_lt_asym [of a b] by (auto simp: js_gt_def)
  from len show "let cur = last data; prev = data ! (length data - 2);
          mean = js_div (foldl js_add (Fin 0) (map volume (drop (length data - 20) data))) (Fin 20);
          spike = js_gt (volume cur) (js_mul mean (Fin 1.5));
          move = js_gt (js_div (Math_abs (js_sub (close cur) (close prev))) (close prev))
                       (Fin 0.002)
      in (detectSmartMoneySignal data = Some BUY) =
           (spike \<and> move \<and> js_gt (close cur) (close prev)) \<and>
         (detectSmartMoneySignal data = Some SELL) =
           (spike \<and> move \<and> js_lt (close cur) (close prev)) \<and>
         (detectSmartMoneySignal data = None) =
           (\<not> (spike \<and> move \<and> js_gt (close cur) (close prev)) \<and>
            \<not> (spike \<and> move \<and> js_lt (close cur) (close prev)))"
    using x [of "close (last data)" "close (data ! (length data - 2))"]
    by (simp add: detectSmartMoneySignal_def Let_def slice_last_def foldl_map l) blast
next
  assume "length data < 20"
  then show "detectSmartMoneySignal data = None"
    by (simp add: detectSmartMoneySignal_def)
qed

theorem detectSmartMoneySignal_spec_witness:
  "20 \<le> length long_series \<and> detectSmartMoneySignal long_series = Some BUY \<and>
   20 \<le> length short_series \<and> detectSmartMoneySignal short_series = Some SELL \<and>
   length [bar 104 100 104 10] < 20 \<and> detectSmartMoneySignal [bar 104 100 104 10] = None"
proof -
  have len: "20 \<le> length long_series" "20 \<le> length short_series"
    by (simp_all add: long_series_def short_series_def)
  have up: "js_gt (volume (last long_series))
       (js_mul (js_div (foldl js_add (Fin 0)
          (map volume (drop (length long_series - 20) long_series))) (Fin 20)) (Fin 1.5)) \<and>
     js_gt (js_div (Math_abs (js_sub (close (last long_series))
          (close (long_series ! (length long_series - 2)))))
          (close (long_series ! (length long_series - 2)))) (Fin 0.002) \<and>
     js_gt (close (last long_series)) (close (long_series ! (length long_series - 2)))"
    by code_simp
  have down: "js_gt (volume (last short_series))
       (js_mul (js_div (foldl js_add (Fin 0)
          (map volume (drop (length short_series - 20) short_series))) (Fin 20)) (Fin 1.5)) \<and>
     js_gt (js_div (Math_abs (js_sub (close (last short_series))
          (close (short_series ! (length short_series - 2)))))
          (close (short_series ! (length short_series - 2)))) (Fin 0.002) \<and>
     js_lt (close (last short_series)) (close (short_series ! (length short_series - 2)))"
    by code_simp
  have "detectSmartMoneySignal long_series = Some BUY"
    using detectSmartMoneySignal_spec [of long_series] len(1) up
    unfolding Let_def by blast
  moreover have "detectSmartMoneySignal short_series = Some SELL"
    using detectSmartMoneySignal_spec [of short_series] len(2) down
    unfolding Let_def by blast
  moreover have "detectSmartMoneySignal [bar 104 100 104 10] = None"
    using detectSmartMoneySignal_spec [of "[bar 104 100 104 10]"] by simp
  ultimately show ?thesis
    using len by simp
qed

text \<open>
  Claim C1, as stated, fails where the moving average is exactly \<open>0\<close>: the guard
  \<^verbatim>\<open>if (!ma100 || !atrStop) return null\<close> takes the number \<open>0\<close> for a missing value. On
  \<open>zero_ma_series\<close> the trailing stop \<open>8.7\<close> is above the average \<open>0\<close> and the momentum
  signal is \<^verbatim>\<open>'BUY'\<close>, yet no signal is returned.
\<close>

theorem checkEntrySignal_zero_average_counterexample:
  "100 \<le> length zero_ma_series \<and>
   calculateSMA zero_ma_series MA_PERIOD = Some (Fin 0) \<and>
   calculateATRTrailingStop zero_ma_series ATR_PERIOD ATR_MULTIPLIER =
     Some \<lparr>value = Fin (87 / 10), atr = Fin (1 / 10)\<rparr> \<and>
   js_gt (Fin (87 / 10)) (Fin 0) \<and>
   detectSmartMoneySignal zero_ma_series = Some BUY \<and>
   checkEntrySignal zero_ma_series = None"
  by code_simp

text \<open>
  Claim C1, amended. On at least 100 bars whose 100-period moving average \<open>m\<close> is not
  \<open>0\<close>, with \<open>st\<close> the ATR trailing stop (last close minus 3 times the 10-period ATR):
  \<^verbatim>\<open>checkEntrySignal\<close> returns the LONG signal with entry at the last close, stop-loss
  \<open>m\<close> and take-profit \<open>entry + (entry - m) * RISK_REWARD_RATIO\<close> when \<open>value st > m\<close> and the
  momentum signal is \<^verbatim>\<open>'BUY'\<close>; the SHORT signal with stop-loss \<open>m\<close> and take-profit
  \<open>entry - (m - entry) * RISK_REWARD_RATIO\<close> when \<open>value st < m\<close> and the momentum signal is
  \<^verbatim>\<open>'SELL'\<close>; \<^verbatim>\<open>null\<close> in every other case; and the two conditions never hold together.
\<close>

theorem checkEntrySignal_nonzero_average:
  assumes "100 \<le> length data"
    and "calculateSMA data MA_PERIOD = Some m"
    and "calculateATRTrailingStop data ATR_PERIOD ATR_MULTIPLIER = Some st"
    and "m \<noteq> Fin 0"
  shows "m = js_div (foldl js_add (Fin 0) (map close (drop (length data - 100) data))) (Fin 100) \<and>
         (\<exists>a. calculateATR data 10 = Some a \<and>
              value st = js_sub (close (last data)) (js_mul a (Fin 3))) \<and>
         (js_gt (value st) m \<and> detectSmartMoneySignal data = Some BUY \<longrightarrow>
            checkEntrySignal data = Some \<lparr>type = LONG, entryPrice = close (last data),
              stopLoss = m,
              takeProfit = js_add (close (last data))
                 (js_mul (js_sub (close (last data)) m) RISK_REWARD_RATIO),
              ma100 = m, atrStopValue = value st\<rparr>) \<and>
         (js_lt (value st) m \<and> detectSmartMoneySignal data = Some SELL \<longrightarrow>
            checkEntrySignal data = Some \<lparr>type = SHORT, entryPrice = close (last data),
              stopLoss = m,
              takeProfit = js_sub (close (last data))
                 (js_mul (js_sub m (close (last data))) RISK_REWARD_RATIO),
              ma100 = m, atrStopValue = value st\<rparr>) \<and>
         (\<not> (js_gt (value st) m \<and> detectSmartMoneySignal data = Some BUY) \<and>
          \<not> (js_lt (value st) m \<and> detectSmartMoneySignal data = Some SELL) \<longrightarrow>
            checkEntrySignal data = None) \<and>
         \<not> ((js_gt (value st) m \<and> detectSmartMoneySignal data = Some BUY) \<and>
            (js_lt (value st) m \<and> detectSmartMoneySignal data = Some SELL))"
proof -
  have mean: "m = js_div (foldl js_add (Fin 0) (map close (drop (length data - 100) data)))
                    (Fin 100)"
    using assms(1,2) by (simp add: calculateSMA_def MA_PERIOD_def slice_last_def foldl_map)
  have stop: "\<exists>a. calculateATR data 10 = Some a \<and>
              value st = js_sub (close (last data)) (js_mul a (Fin 3))"
    using calculateATRTrailingStop_Some [of ATR_PERIOD data ATR_MULTIPLIER] assms(1,3)
    by (auto simp: ATR_PERIOD_def ATR_MULTIPLIER_def)
  have branches: "(js_gt (value st) m \<and> detectSmartMoneySignal data = Some BUY \<longrightarrow>
            checkEntrySignal data = Some \<lparr>type = LONG, entryPrice = close (last data),
              stopLoss = m,
              takeProfit = js_add (close (last data))
                 (js_mul (js_sub (close (last data)) m) RISK_REWARD_RATIO),
              ma100 = m, atrStopValue = value st\<rparr>) \<and>
         (js_lt (value st) m \<and> detectSmartMoneySignal data = Some SELL \<longrightarrow>
            checkEntrySignal data = Some \<lparr>type = SHORT, entryPrice = close (last data),
              stopLoss = m,
              takeProfit = js_sub (close (last data))
                 (js_mul (js_sub m (close (last data))) RISK_REWARD_RATIO),
              ma100 = m, atrStopValue = value st\<rparr>) \<and>
         (\<not> (js_gt (value st) m \<and> detectSmartMoneySignal data = Some BUY) \<and>
          \<not> (js_lt (value st) m \<and> detectSmartMoneySignal data = Some SELL) \<longrightarrow>
            checkEntrySignal data = None) \<and>
         \<not> ((js_gt (value st) m \<and> detectSmartMoneySignal data = Some BUY) \<and>
            (js_lt (value st) m \<and> detectSmartMoneySignal data = Some SELL))"
  proof (cases "m = NaN")
    case True
    then show ?thesis
      using checkEntrySignal_cases [OF assms(1-3)] by (simp add: js_gt_def)
  next
    case False
    then show ?thesis
      using checkEntrySignal_cases [OF assms(1-3)] assms(4) by auto
  qed
  from mean stop branches show ?thesis
    by (intro conjI) blast+
qed

theorem checkEntrySignal_nonzero_average_witness:
  "checkEntrySignal long_series =
     Some \<lparr>type = LONG, entryPrice = Fin 104, stopLoss = Fin (2501 / 25),
        takeProfit = Fin (2699 / 25), ma100 = Fin (2501 / 25), atrStopValue = Fin (514 / 5)\<rparr> \<and>
   checkEntrySignal short_series =
     Some \<lparr>type = SHORT, entryPrice = Fin 96, stopLoss = Fin (2499 / 25),
        takeProfit = Fin (2301 / 25), ma100 = Fin (2499 / 25), atrStopValue = Fin (474 / 5)\<rparr> \<and>
   checkEntrySignal (replicate 100 (bar 100 100 100 1)) = None"
proof -
  let ?flat = "replicate 100 (bar 100 100 100 1)"
  have len: "100 \<le> length long_series" "100 \<le> length short_series" "100 \<le> length ?flat"
    by (simp_all add: long_series_def short_series_def)
  have ma: "calculateSMA long_series MA_PERIOD = Some (Fin (2501 / 25))"
    "calculateSMA short_series MA_PERIOD = Some (Fin (2499 / 25))"
    "calculateSMA ?flat MA_PERIOD = Some (Fin 100)"
    by code_simp+
  have st: "calculateATRTrailingStop long_series ATR_PERIOD ATR_MULTIPLIER =
       Some \<lparr>value = Fin (514 / 5), atr = Fin (2 / 5)\<rparr>"
    "calculateATRTrailingStop short_series ATR_PERIOD ATR_MULTIPLIER =
       Some \<lparr>value = Fin (474 / 5), atr = Fin (2 / 5)\<rparr>"
    "calculateATRTrailingStop ?flat ATR_PERIOD ATR_MULTIPLIER =
       Some \<lparr>value = Fin 100, atr = Fin 0\<rparr>"
    by code_simp+
  have sm: "detectSmartMoneySignal long_series = Some BUY"
    "detectSmartMoneySignal short_series = Some SELL"
    "detectSmartMoneySignal ?flat = None"
    by code_simp+
  have l: "close (last long_series) = Fin 104" "close (last short_series) = Fin 96"
    by (simp_all add: long_series_def short_series_def bar_def)
  have nz: "Fin (2501 / 25) \<noteq> Fin 0" "Fin (2499 / 25) \<noteq> Fin 0" "Fin 100 \<noteq> Fin 0"
    by simp_all
  show ?thesis
    using checkEntrySignal_nonzero_average [OF len(1) ma(1) st(1) nz(1)]
      checkEntrySignal_nonzero_average [OF len(2) ma(2) st(2) nz(2)]
      checkEntrySignal_nonzero_average [OF len(3) ma(3) st(3) nz(3)]
    by (simp add: sm l js_gt_def js_sub_def RISK_REWARD_RATIO_def del: ex_simps)
qed

text \<open>
  Claim C5, as stated, fails where both tests of a direction hold: the stop-loss test
  is made first. The SHORT signal that \<^verbatim>\<open>checkEntrySignal\<close> returns on \<open>wide_series\<close> has
  its stop-loss \<open>50.99\<close> below its entry price \<open>99\<close>; at the price \<open>99\<close>, which is at most the
  take-profit \<open>147.01\<close>, the exit reason is \<^verbatim>\<open>STOP_LOSS\<close> and not \<^verbatim>\<open>TAKE_PROFIT\<close>.
\<close>

theorem checkExit_stop_loss_first_counterexample:
  "checkEntrySignal wide_series =
     Some \<lparr>type = SHORT, entryPrice = Fin 99, stopLoss = Fin (5099 / 100),
        takeProfit = Fin (14701 / 100), ma100 = Fin (5099 / 100),
        atrStopValue = Fin (- (363 / 10))\<rparr> \<and>
   js_le (Fin 99) (Fin (14701 / 100)) \<and>
   checkExit \<lparr>type = SHORT, entryPrice = Fin 99, stopLoss = Fin (5099 / 100),
        takeProfit = Fin (14701 / 100), ma100 = Fin (5099 / 100),
        atrStopValue = Fin (- (363 / 10))\<rparr> (Fin 99) = Exit STOP_LOSS (Fin 99) \<and>
   checkExit \<lparr>type = SHORT, entryPrice = Fin 99, stopLoss = Fin (5099 / 100),
        takeProfit = Fin (14701 / 100), ma100 = Fin (5099 / 100),
        atrStopValue = Fin (- (363 / 10))\<rparr> (Fin 99) \<noteq> Exit TAKE_PROFIT (Fin 99)"
  by code_simp

text \<open>
  Claim C5, amended. \<^verbatim>\<open>checkExit\<close> on a LONG position returns \<^verbatim>\<open>STOP_LOSS\<close> when
  \<open>price <= stopLoss\<close>, and \<^verbatim>\<open>TAKE_PROFIT\<close> when that test fails and \<open>price >= takeProfit\<close>; on
  a SHORT position \<^verbatim>\<open>STOP_LOSS\<close> when \<open>price >= stopLoss\<close>, and \<^verbatim>\<open>TAKE_PROFIT\<close> when that
  test fails and \<open>price <= takeProfit\<close>; no exit when neither test of the direction holds;
  and the price of an exit is the current price.
\<close>

theorem checkExit_spec:
  "(type p = LONG \<and> js_le price (stopLoss p) \<longrightarrow> checkExit p price = Exit STOP_LOSS price) \<and>
   (type p = LONG \<and> \<not> js_le price (stopLoss p) \<and> js_ge price (takeProfit p) \<longrightarrow>
      checkExit p price = Exit TAKE_PROFIT price) \<and>
   (type p = SHORT \<and> js_ge price (stopLoss p) \<longrightarrow> checkExit p price = Exit STOP_LOSS price) \<and>
   (type p = SHORT \<and> \<not> js_ge price (stopLoss p) \<and> js_le price (takeProfit p) \<longrightarrow>
      checkExit p price = Exit TAKE_PROFIT price) \<and>
   (type p = LONG \<and> \<not> js_le price (stopLoss p) \<and> \<not> js_ge price (takeProfit p) \<longrightarrow>
      checkExit p price = NoExit) \<and>
   (type p = SHORT \<and> \<not> js_ge price (stopLoss p) \<and> \<not> js_le price (takeProfit p) \<longrightarrow>
      checkExit p price = NoExit) \<and>
   (\<forall>r q. checkExit p price = Exit r q \<longrightarrow> q = price)"
  by (auto simp: checkExit_def split: if_splits)

theorem checkExit_spec_witness:
  "checkExit (pos LONG 3 2 4 10) (Fin 1.99) = Exit STOP_LOSS (Fin 1.99) \<and>
   checkExit (pos LONG 3 2 4 10) (Fin 4) = Exit TAKE_PROFIT (Fin 4) \<and>
   checkExit (pos LONG 3 2 4 10) (Fin 3) = NoExit \<and>
   checkExit (pos SHORT 3 4 2 10) (Fin 4) = Exit STOP_LOSS (Fin 4) \<and>
   checkExit (pos SHORT 3 4 2 10) (Fin 2) = Exit TAKE_PROFIT (Fin 2) \<and>
   checkExit (pos SHORT 3 4 2 10) (Fin 3) = NoExit"
  using checkExit_spec [of "pos LONG 3 2 4 10" "Fin 1.99"]
    checkExit_spec [of "pos LONG 3 2 4 10" "Fin 4"]
    checkExit_spec [of "pos LONG 3 2 4 10" "Fin 3"]
    checkExit_spec [of "pos SHORT 3 4 2 10" "Fin 4"]
    checkExit_spec [of "pos SHORT 3 4 2 10" "Fin 2"]
    checkExit_spec [of "pos SHORT 3 4 2 10" "Fin 3"]
  by (simp add: pos_def js_le_def js_ge_def)



section \<open>Properties of the trading engine\<close>

lemma updatePriceData_fields [simp]:
  "balance (updatePriceData v s) = balance s"
  "inPosition (updatePriceData v s) = inPosition s"
  "currentPosition (updatePriceData v s) = currentPosition s"
  "trades (updatePriceData v s) = trades s"
  by (simp_all add: updatePriceData_def)

lemma initialize_consistent: "consistent s \<Longrightarrow> consistent (initialize v s)"
  by (simp add: initialize_def consistent_def)

lemma openPosition_consistent: "consistent s \<Longrightarrow> consistent (fst (openPosition cfg v s sg))"
  by (simp add: openPosition_def consistent_def Let_def split: option.splits)

lemma closePosition_consistent:
  "consistent s \<Longrightarrow> consistent (fst (closePosition cfg v s rsn exitP))"
  by (simp add: closePosition_def consistent_def Let_def split: option.splits)

lemma checkForSignals_result:
  "fst (checkForSignals cfg v s) = updatePriceData v s \<or>
   (\<exists>rsn price. fst (checkForSignals cfg v s) =
        fst (closePosition cfg v (updatePriceData v s) rsn price)) \<or>
   (\<exists>sg. fst (checkForSignals cfg v s) = fst (openPosition cfg v (updatePriceData v s) sg))"
  unfolding checkForSignals_def Let_def case_prod_beta
  by (simp split: option.split exitCheck.split) blast

lemma checkForSignals_consistent:
  "consistent s \<Longrightarrow> consistent (fst (checkForSignals cfg v s))"
  using checkForSignals_result [of cfg v s]
    closePosition_consistent [of "updatePriceData v s" cfg v]
    openPosition_consistent [of "updatePriceData v s" cfg v]
  by (auto simp: consistent_def)

lemma step_consistent: "consistent s \<Longrightarrow> consistent (step cfg s c)"
  by (cases c)
    (simp_all add: initialize_consistent checkForSignals_consistent
      openPosition_consistent closePosition_consistent)

lemma foldl_step_consistent: "consistent s \<Longrightarrow> consistent (foldl (step cfg) s calls)"
  by (induction calls arbitrary: s) (simp_all add: step_consistent)

lemma openPosition_trades: "trades (fst (openPosition cfg v s sg)) = trades s"
  and openPosition_balance: "balance (fst (openPosition cfg v s sg)) = balance s"
  by (simp_all add: openPosition_def Let_def split: option.splits)

lemma closePosition_closes:
  assumes "currentPosition s = Some p" and "closeOrder v = Some oid"
  shows "fst (closePosition cfg v s rsn exitP) =
     s\<lparr>trades := trades s @
          [\<lparr>trade_type = type p, trade_entryPrice = entryPrice p, exitPrice = exitP,
            trade_quantity = quantity p,
            profit = js_mul (if type p = LONG
                             then js_mul (js_sub exitP (entryPrice p)) (quantity p)
                             else js_mul (js_sub (entryPrice p) exitP) (quantity p))
                            (LEVERAGE cfg),
            reason = rsn, closedAt = nowISO v\<rparr>],
       balance := js_add (balance s)
          (js_mul (if type p = LONG
                   then js_mul (js_sub exitP (entryPrice p)) (quantity p)
                   else js_mul (js_sub (entryPrice p) exitP) (quantity p))
                  (LEVERAGE cfg)),
       inPosition := False, currentPosition := None\<rparr>"
  using assms by (simp add: closePosition_def Let_def)

lemma closePosition_fails:
  "currentPosition s = None \<or> closeOrder v = None \<Longrightarrow>
   closePosition cfg v s rsn exitP = (s, [ClosePosition])"
  by (auto simp: closePosition_def split: option.splits)

lemma closePosition_trades:
  "trades (fst (closePosition cfg v s rsn exitP)) = trades s \<or>
   (\<exists>t. trades (fst (closePosition cfg v s rsn exitP)) = trades s @ [t] \<and>
        currentPosition s \<noteq> None \<and> closeOrder v \<noteq> None \<and>
        currentPosition (fst (closePosition cfg v s rsn exitP)) = None \<and>
        \<not> inPosition (fst (closePosition cfg v s rsn exitP)))"
  by (cases "currentPosition s"; cases "closeOrder v")
    (simp_all add: closePosition_fails closePosition_closes)

lemma initialize_trades: "trades (initialize v s) = trades s"
  by (simp add: initialize_def)

lemma checkForSignals_trades:
  "trades (fst (checkForSignals cfg v s)) = trades s \<or>
   (\<exists>t. trades (fst (checkForSignals cfg v s)) = trades s @ [t] \<and>
        currentPosition s \<noteq> None \<and>
        currentPosition (fst (checkForSignals cfg v s)) = None \<and>
        \<not> inPosition (fst (checkForSignals cfg v s)))"
  using checkForSignals_result [of cfg v s]
    closePosition_trades [of cfg v "updatePriceData v s"]
    openPosition_trades [of cfg v "updatePriceData v s"]
  by (elim disjE exE) (simp, (simp, blast), simp)

lemma step_trades:
  "trades (step cfg s c) = trades s \<or>
   (\<exists>t. trades (step cfg s c) = trades s @ [t] \<and> currentPosition s \<noteq> None \<and>
        currentPosition (step cfg s c) = None \<and> \<not> inPosition (step cfg s c))"
proof (cases c)
  case (Initialize v)
  then show ?thesis by (simp add: initialize_trades)
next
  case (CheckForSignals v)
  then show ?thesis using checkForSignals_trades [of cfg v s] by simp
next
  case (OpenPosition v sg)
  then show ?thesis by (simp add: openPosition_trades)
next
  case (ClosePositionCall v rsn p)
  then show ?thesis using closePosition_trades [of cfg v s rsn p] by auto
qed

lemma foldl_step_trades: "\<exists>ts. trades (foldl (step cfg) s calls) = trades s @ ts"
proof (induction calls arbitrary: s)
  case Nil
  then show ?case by simp
next
  case (Cons c calls)
  from Cons.IH [of "step cfg s c"] obtain ts
    where "trades (foldl (step cfg) (step cfg s c) calls) = trades (step cfg s c) @ ts"
    by blast
  moreover from step_trades [of cfg s c] obtain us where "trades (step cfg s c) = trades s @ us"
    by auto
  ultimately show ?case by simp
qed

lemma checkForSignals_exit:
  assumes "inPosition s" and "currentPosition s = Some p"
    and "priceData (updatePriceData v s) \<noteq> []"
    and "js_truthy (close (last (priceData (updatePriceData v s))))"
    and "checkExit p (close (last (priceData (updatePriceData v s)))) = Exit rsn price"
  shows "fst (checkForSignals cfg v s) = fst (closePosition cfg v (updatePriceData v s) rsn price)"
  using assms last_nth [of "priceData (updatePriceData v s)"]
  by (simp add: checkForSignals_def Let_def case_prod_beta)

lemma openPosition_market_fails:
  "marketOrder v = None \<Longrightarrow> fst (openPosition cfg v s sg) = s"
  by (simp add: openPosition_def Let_def)

lemma openPosition_stop_irrelevant:
  "openPosition cfg (v\<lparr>stopOrder := r\<rparr>) s sg = openPosition cfg v s sg"
  by (simp add: openPosition_def Let_def split: option.split)

lemma closePosition_stop_irrelevant:
  "closePosition cfg (v\<lparr>stopOrder := r\<rparr>) s rsn p = closePosition cfg v s rsn p"
  by (simp add: closePosition_def Let_def split: option.split)

lemma updatePriceData_stop_irrelevant:
  "updatePriceData (v\<lparr>stopOrder := r\<rparr>) s = updatePriceData v s"
  by (simp add: updatePriceData_def)

lemma checkForSignals_stop_irrelevant:
  "checkForSignals cfg (v\<lparr>stopOrder := r\<rparr>) s = checkForSignals cfg v s"
  unfolding checkForSignals_def openPosition_stop_irrelevant closePosition_stop_irrelevant
    updatePriceData_stop_irrelevant
  by (rule refl)

lemma checkForSignals_entry_fails:
  assumes "\<not> inPosition s \<or> currentPosition s = None" and "marketOrder v = None"
  shows "fst (checkForSignals cfg v s) = updatePriceData v s"
proof -
  have "(if inPosition (updatePriceData v s) then currentPosition (updatePriceData v s)
         else None) = None"
    using assms(1) by auto
  then show ?thesis
    using assms(2)
    by (simp add: checkForSignals_def Let_def case_prod_beta openPosition_market_fails
        split: option.split)
qed

lemma checkForSignals_exit_fails:
  assumes "closeOrder v = None" and "inPosition s" and "currentPosition s \<noteq> None"
  shows "fst (checkForSignals cfg v s) = updatePriceData v s"
proof -
  from assms obtain p where
    "(if inPosition (updatePriceData v s) then currentPosition (updatePriceData v s)
         else None) = Some p"
    by auto
  then show ?thesis
    using assms(1)
    by (simp add: checkForSignals_def Let_def case_prod_beta closePosition_fails
        split: option.split exitCheck.split)
qed

lemma updatePriceData_twice:
  "klines v' \<noteq> [] \<Longrightarrow> updatePriceData v' (updatePriceData v s) = updatePriceData v' s"
  by (simp add: updatePriceData_def)

lemma checkForSignals_after_update:
  "klines v' \<noteq> [] \<Longrightarrow>
   checkForSignals cfg v' (updatePriceData v s) = checkForSignals cfg v' s"
  by (simp add: checkForSignals_def updatePriceData_twice)




section \<open>The claims about the trading engine\<close>

text \<open>
  Claim C3. In the initial state and after every sequence of calls of \<^verbatim>\<open>initialize\<close>,
  \<^verbatim>\<open>checkForSignals\<close>, \<^verbatim>\<open>openPosition\<close> and \<^verbatim>\<open>closePosition\<close>, whatever the venue
  answers, \<^verbatim>\<open>inPosition\<close> is true if and only if \<^verbatim>\<open>currentPosition\<close> is not \<^verbatim>\<open>null\<close>: the
  state is either flat with no position or in position with one.
\<close>

theorem position_flag_consistent:
  "inPosition (run cfg calls) = (currentPosition (run cfg calls) \<noteq> None) \<and>
   (inPosition (run cfg calls) = False \<and> currentPosition (run cfg calls) = None \<or>
    inPosition (run cfg calls) = True \<and> (\<exists>p. currentPosition (run cfg calls) = Some p))"
proof -
  have "consistent initialState"
    by (simp add: consistent_def initialState_def)
  then have "consistent (run cfg calls)"
    unfolding run_def by (rule foldl_step_consistent)
  then show ?thesis
    by (auto simp: consistent_def)
qed

theorem position_flag_consistent_witness:
  "inPosition (run cfg0 [Initialize venue0, CheckForSignals venue0]) = True \<and>
   currentPosition (run cfg0 [Initialize venue0, CheckForSignals venue0]) \<noteq> None \<and>
   inPosition (run cfg0 [Initialize venue0, CheckForSignals venue0, CheckForSignals venue1])
     = False \<and>
   currentPosition (run cfg0 [Initialize venue0, CheckForSignals venue0, CheckForSignals venue1])
     = None"
proof -
  have a: "inPosition (run cfg0 [Initialize venue0, CheckForSignals venue0]) = True"
    by code_simp
  have b: "inPosition (run cfg0 [Initialize venue0, CheckForSignals venue0,
      CheckForSignals venue1]) = False"
    by code_simp
  show ?thesis
    using position_flag_consistent [of cfg0 "[Initialize venue0, CheckForSignals venue0]"]
      position_flag_consistent [of cfg0 "[Initialize venue0, CheckForSignals venue0,
        CheckForSignals venue1]"] a b
    by simp
qed

text \<open>
  Claim C2. When a position is held and the close request succeeds, \<^verbatim>\<open>closePosition\<close>
  (called directly, or by a cycle of \<^verbatim>\<open>checkForSignals\<close> whose exit check fires) appends
  exactly one trade, whose profit is \<open>(exitPrice - entryPrice) * quantity\<close> for a LONG and
  \<open>(entryPrice - exitPrice) * quantity\<close> for a SHORT position, times the leverage, and
  whose reason is the exit reason; it adds that profit to the balance, clears
  \<^verbatim>\<open>currentPosition\<close> and resets \<^verbatim>\<open>inPosition\<close>. Every call leaves the trade history as
  it is or appends one trade while closing the position; \<^verbatim>\<open>openPosition\<close> and
  \<^verbatim>\<open>initialize\<close> never touch it; so over any sequence of calls the history only grows
  at its end.
\<close>

theorem close_transition:
  "(currentPosition s = Some p \<and> closeOrder v = Some oid \<longrightarrow>
      (let s' = fst (closePosition cfg v s rsn exitP);
           realized = js_mul (if type p = LONG
                              then js_mul (js_sub exitP (entryPrice p)) (quantity p)
                              else js_mul (js_sub (entryPrice p) exitP) (quantity p))
                             (LEVERAGE cfg)
       in (\<exists>t. trades s' = trades s @ [t] \<and> profit t = realized \<and> reason t = rsn \<and>
               exitPrice t = exitP) \<and>
          balance s' = js_add (balance s) realized \<and>
          currentPosition s' = None \<and> inPosition s' = False)) \<and>
   (inPosition s \<and> currentPosition s = Some p \<and> priceData (updatePriceData v s) \<noteq> [] \<and>
    js_truthy (close (last (priceData (updatePriceData v s)))) \<and>
    checkExit p (close (last (priceData (updatePriceData v s)))) = Exit rsn exitP \<and>
    closeOrder v = Some oid \<longrightarrow>
      (let s' = fst (checkForSignals cfg v s);
           realized = js_mul (if type p = LONG
                              then js_mul (js_sub exitP (entryPrice p)) (quantity p)
                              else js_mul (js_sub (entryPrice p) exitP) (quantity p))
                             (LEVERAGE cfg)
       in (\<exists>t. trades s' = trades s @ [t] \<and> profit t = realized \<and> reason t = rsn \<and>
               exitPrice t = exitP) \<and>
          balance s' = js_add (balance s) realized \<and>
          currentPosition s' = None \<and> inPosition s' = False)) \<and>
   (trades (step cfg s c) = trades s \<or>
    (\<exists>t. trades (step cfg s c) = trades s @ [t] \<and> currentPosition s \<noteq> None \<and>
         currentPosition (step cfg s c) = None \<and> \<not> inPosition (step cfg s c))) \<and>
   trades (fst (openPosition cfg v s sg)) = trades s \<and>
   trades (initialize v s) = trades s \<and>
   (\<exists>ts. trades (foldl (step cfg) s calls) = trades s @ ts) \<and>
   length (trades s) \<le> length (trades (foldl (step cfg) s calls))"
proof (intro conjI impI)
  assume "currentPosition s = Some p \<and> closeOrder v = Some oid"
  then show "let s' = fst (closePosition cfg v s rsn exitP);
           realized = js_mul (if type p = LONG
                              then js_mul (js_sub exitP (entryPrice p)) (quantity p)
                              else js_mul (js_sub (entryPrice p) exitP) (quantity p))
                             (LEVERAGE cfg)
       in (\<exists>t. trades s' = trades s @ [t] \<and> profit t = realized \<and> reason t = rsn \<and>
               exitPrice t = exitP) \<and>
          balance s' = js_add (balance s) realized \<and>
          currentPosition s' = None \<and> inPosition s' = False"
    by (simp add: closePosition_closes [of s p v oid] Let_def)
next
  assume a: "inPosition s \<and> currentPosition s = Some p \<and> priceData (updatePriceData v s) \<noteq> [] \<and>
    js_truthy (close (last (priceData (updatePriceData v s)))) \<and>
    checkExit p (close (last (priceData (updatePriceData v s)))) = Exit rsn exitP \<and>
    closeOrder v = Some oid"
  then have "fst (checkForSignals cfg v s) =
      fst (closePosition cfg v (updatePriceData v s) rsn exitP)"
    by (intro checkForSignals_exit) blast+
  with a show "let s' = fst (checkForSignals cfg v s);
           realized = js_mul (if type p = LONG
                              then js_mul (js_sub exitP (entryPrice p)) (quantity p)
                              else js_mul (js_sub (entryPrice p) exitP) (quantity p))
                             (LEVERAGE cfg)
       in (\<exists>t. trades s' = trades s @ [t] \<and> profit t = realized \<and> reason t = rsn \<and>
               exitPrice t = exitP) \<and>
          balance s' = js_add (balance s) realized \<and>
          currentPosition s' = None \<and> inPosition s' = False"
    by (simp add: closePosition_closes [of "updatePriceData v s" p v oid] Let_def)
next
  show "trades (step cfg s c) = trades s \<or>
    (\<exists>t. trades (step cfg s c) = trades s @ [t] \<and> currentPosition s \<noteq> None \<and>
         currentPosition (step cfg s c) = None \<and> \<not> inPosition (step cfg s c))"
    by (rule step_trades)
next
  show "trades (fst (openPosition cfg v s sg)) = trades s"
    by (rule openPosition_trades)
next
  show "trades (initialize v s) = trades s"
    by (rule initialize_trades)
next
  show "\<exists>ts. trades (foldl (step cfg) s calls) = trades s @ ts"
    by (rule foldl_step_trades)
next
  show "length (trades s) \<le> length (trades (foldl (step cfg) s calls))"
    using foldl_step_trades [of cfg s calls] by auto
qed

theorem close_transition_witness:
  "map profit (trades (fst (checkForSignals cfg0 venue1 state1))) = [Fin (- 101)] \<and>
   map reason (trades (fst (checkForSignals cfg0 venue1 state1))) = [STOP_LOSS] \<and>
   map exitPrice (trades (fst (checkForSignals cfg0 venue1 state1))) = [Fin 1.99] \<and>
   balance (fst (checkForSignals cfg0 venue1 state1)) = Fin 899 \<and>
   currentPosition (fst (checkForSignals cfg0 venue1 state1)) = None \<and>
   inPosition (fst (checkForSignals cfg0 venue1 state1)) = False"
proof -
  let ?p = "pos LONG 3 2 4 10"
  have u: "priceData (updatePriceData venue1 state1) = [bar 2 1.99 1.99 1]"
    by (simp add: updatePriceData_def venue1_def)
  have h: "inPosition state1 \<and> currentPosition state1 = Some ?p \<and>
      priceData (updatePriceData venue1 state1) \<noteq> [] \<and>
      js_truthy (close (last (priceData (updatePriceData venue1 state1)))) \<and>
      checkExit ?p (close (last (priceData (updatePriceData venue1 state1)))) =
        Exit STOP_LOSS (Fin 1.99) \<and>
      closeOrder venue1 = Some 8"
    unfolding u
    by (simp add: state1_def venue1_def bar_def js_truthy_def checkExit_def pos_def js_le_def)
  have r: "js_mul (if type ?p = LONG
                   then js_mul (js_sub (Fin 1.99) (entryPrice ?p)) (quantity ?p)
                   else js_mul (js_sub (entryPrice ?p) (Fin 1.99)) (quantity ?p))
                  (LEVERAGE cfg0) = Fin (- 101)"
    by (simp add: pos_def cfg0_def js_sub_def)
  from close_transition [of state1 ?p venue1 8 cfg0 STOP_LOSS "Fin 1.99"] h
  obtain t where "trades (fst (checkForSignals cfg0 venue1 state1)) = trades state1 @ [t]"
      "profit t = Fin (- 101)" "reason t = STOP_LOSS" "exitPrice t = Fin 1.99"
      "balance (fst (checkForSignals cfg0 venue1 state1)) = js_add (balance state1) (Fin (- 101))"
      "currentPosition (fst (checkForSignals cfg0 venue1 state1)) = None"
      "inPosition (fst (checkForSignals cfg0 venue1 state1)) = False"
    unfolding Let_def r by blast
  then show ?thesis
    by (simp add: state1_def)
qed

text \<open>
  Claim C4, as stated, fails for the stop order: its answer is never read. On a cycle
  from the initial state in which the market order succeeds and the stop order fails, the
  position is opened all the same.
\<close>

theorem stop_order_failure_counterexample:
  "stopOrder venue0 = None \<and>
   inPosition initialState = False \<and>
   inPosition (fst (checkForSignals cfg0 venue0 initialState)) = True \<and>
   currentPosition initialState = None \<and>
   currentPosition (fst (checkForSignals cfg0 venue0 initialState)) =
     Some \<lparr>type = LONG, entryPrice = Fin 104, stopLoss = Fin (2501 / 25),
        takeProfit = Fin (2699 / 25), ma100 = Fin (2501 / 25), atrStopValue = Fin (514 / 5),
        quantity = Fin (961 / 10), openedAt = ''T1'', orderId = 7\<rparr> \<and>
   snd (checkForSignals cfg0 venue0 initialState) =
     [GetKlines, GetBalance, PlaceMarketOrder BUY (Fin (961 / 10)),
      PlaceStopOrder SELL (Fin (961 / 10)) (Fin (2501 / 25))]"
  by code_simp

text \<open>
  Claim C4, amended. A cycle that attempts an entry and whose market order fails, and a
  cycle that attempts an exit and whose close request fails, leave the balance,
  \<^verbatim>\<open>inPosition\<close>, \<^verbatim>\<open>currentPosition\<close> and the trade history as they were, and the next
  cycle (on fresh candles) runs as it would have from the state before. The same holds of
  \<^verbatim>\<open>openPosition\<close> and \<^verbatim>\<open>closePosition\<close> themselves. The answer to the stop order has no
  effect on the state.
\<close>

theorem order_failure_no_op:
  "((\<not> inPosition s \<or> currentPosition s = None) \<and> marketOrder v = None \<longrightarrow>
      (let s' = fst (checkForSignals cfg v s)
       in balance s' = balance s \<and> inPosition s' = inPosition s \<and>
          currentPosition s' = currentPosition s \<and> trades s' = trades s \<and>
          (klines v' \<noteq> [] \<longrightarrow> checkForSignals cfg v' s' = checkForSignals cfg v' s))) \<and>
   (inPosition s \<and> currentPosition s \<noteq> None \<and> closeOrder v = None \<longrightarrow>
      (let s' = fst (checkForSignals cfg v s)
       in balance s' = balance s \<and> inPosition s' = inPosition s \<and>
          currentPosition s' = currentPosition s \<and> trades s' = trades s \<and>
          (klines v' \<noteq> [] \<longrightarrow> checkForSignals cfg v' s' = checkForSignals cfg v' s))) \<and>
   (marketOrder v = None \<longrightarrow> fst (openPosition cfg v s sg) = s) \<and>
   (closeOrder v = None \<longrightarrow> fst (closePosition cfg v s rsn exitP) = s) \<and>
   fst (checkForSignals cfg (v\<lparr>stopOrder := r\<rparr>) s) = fst (checkForSignals cfg v s)"
  by (simp add: checkForSignals_entry_fails checkForSignals_exit_fails
      checkForSignals_after_update openPosition_market_fails closePosition_fails
      checkForSignals_stop_irrelevant Let_def)

theorem order_failure_no_op_witness:
  "balance (fst (checkForSignals cfg0 venue2 initialState)) = Fin 0 \<and>
   inPosition (fst (checkForSignals cfg0 venue2 initialState)) = False \<and>
   currentPosition (fst (checkForSignals cfg0 venue2 initialState)) = None \<and>
   trades (fst (checkForSignals cfg0 venue2 initialState)) = [] \<and>
   snd (checkForSignals cfg0 venue2 initialState) =
     [GetKlines, GetBalance, PlaceMarketOrder BUY (Fin (961 / 10))] \<and>
   checkForSignals cfg0 venue0 (fst (checkForSignals cfg0 venue2 initialState)) =
     checkForSignals cfg0 venue0 initialState \<and>
   balance (fst (checkForSignals cfg0 venue2 state1)) = Fin 1000 \<and>
   inPosition (fst (checkForSignals cfg0 venue2 state1)) = True \<and>
   currentPosition (fst (checkForSignals cfg0 venue2 state1)) = Some (pos LONG 3 2 4 10) \<and>
   trades (fst (checkForSignals cfg0 venue2 state1)) = [] \<and>
   fst (checkForSignals cfg0 (venue0\<lparr>stopOrder := Some 9\<rparr>) initialState) =
     fst (checkForSignals cfg0 venue0 initialState)"
proof -
  have k: "klines venue0 \<noteq> []"
    by (simp add: venue0_def long_series_def)
  have rq: "snd (checkForSignals cfg0 venue2 initialState) =
     [GetKlines, GetBalance, PlaceMarketOrder BUY (Fin (961 / 10))]"
    by code_simp
  show ?thesis
    using order_failure_no_op [of initialState venue2 cfg0 venue0]
      order_failure_no_op [of state1 venue2 cfg0 venue0]
      order_failure_no_op [of initialState venue0 cfg0 venue0 _ _ _ "Some 9"] k rq
    by (simp add: Let_def initialState_def state1_def venue2_def)
qed



end
